theory Spec2Isabelle
  imports Complex_Main "HOL-Library.Stream" "HOL-Library.Char_ord" "HOL-Library.List_Lexorder"
    "HOL-Library.Sublist" "HOL-Library.AList"
begin

section \<open>Errors\<close>

text \<open>
  Every \<^verbatim>\<open>raise\<close> of the three modules, and every failure of the image and file
  library calls they make, is a value of \<open>error\<close>.  The Python exception class of each
  is given by \<open>exn_class\<close>.
\<close>

type_synonym path = "string list"

datatype error =
    Unsupported_normalize_mode string
  | Crop_larger_than_input
  | Invalid_resize_target
  | Width_not_divisible_by_2 path
  | Missing_split_directory path
  | No_jpg_files_found path
  | Split_not_found string
  | No_such_file path
  | Is_a_directory path
  | File_exists path
  | Not_a_directory path
  | Cannot_identify_image path
  | Json_decode_error path
  | List_index_out_of_range

datatype exn = ValueError | FileNotFoundError | IsADirectoryError | NotADirectoryError
  | FileExistsError | UnidentifiedImageError | IndexError

fun exn_class :: "error \<Rightarrow> exn" where
  "exn_class (Unsupported_normalize_mode _) = ValueError"
| "exn_class Crop_larger_than_input = ValueError"
| "exn_class Invalid_resize_target = ValueError"
| "exn_class (Width_not_divisible_by_2 _) = ValueError"
| "exn_class (Missing_split_directory _) = FileNotFoundError"
| "exn_class (No_jpg_files_found _) = FileNotFoundError"
| "exn_class (Split_not_found _) = ValueError"
| "exn_class (No_such_file _) = FileNotFoundError"
| "exn_class (Is_a_directory _) = IsADirectoryError"
| "exn_class (Not_a_directory _) = NotADirectoryError"
| "exn_class (File_exists _) = FileExistsError"
| "exn_class (Cannot_identify_image _) = UnidentifiedImageError"
| "exn_class (Json_decode_error _) = ValueError"
| "exn_class List_index_out_of_range = IndexError"

section \<open>Images and tensors\<close>

text \<open>
  A raster image carries its mode and its size, as a PIL image does, and its pixels row by
  row.  Two modes are modelled: 8-bit greyscale (\<open>L\<close>) and 8-bit colour (\<open>RGB\<close>).
\<close>

datatype mode = ModeL | ModeRGB

datatype pixel = L nat | RGB nat nat nat

record image =
  mode :: mode
  width :: nat
  height :: nat
  rows :: "pixel list list"



definition pixel_at :: "image \<Rightarrow> nat \<Rightarrow> nat \<Rightarrow> pixel" where
  "pixel_at img x y = rows img ! y ! x"

text \<open>\<^verbatim>\<open>img.crop((left, upper, right, lower))\<close>\<close>

definition crop_box :: "image \<Rightarrow> nat \<Rightarrow> nat \<Rightarrow> nat \<Rightarrow> nat \<Rightarrow> image" where
  "crop_box img left upper right lower =
     img\<lparr>width := right - left, height := lower - upper,
         rows := map (\<lambda>r. take (right - left) (drop left r))
                   (take (lower - upper) (drop upper (rows img)))\<rparr>"

text \<open>\<^verbatim>\<open>img.convert("RGB")\<close>: a grey value is copied to the three bands.\<close>

fun to_rgb :: "pixel \<Rightarrow> pixel" where
  "to_rgb (L v) = RGB v v v"
| "to_rgb (RGB r g b) = RGB r g b"

definition convert_RGB :: "image \<Rightarrow> image" where
  "convert_RGB img = img\<lparr>mode := ModeRGB, rows := map (map to_rgb) (rows img)\<rparr>"

text \<open>A tensor carries its shape (channels, height, width) and its values, channel first.\<close>

record tensor =
  shape :: "nat \<times> nat \<times> nat"
  data :: "real list list list"

fun nbands :: "mode \<Rightarrow> nat" where
  "nbands ModeL = 1"
| "nbands ModeRGB = 3"

fun band :: "nat \<Rightarrow> pixel \<Rightarrow> nat" where
  "band c (L v) = v"
| "band c (RGB r g b) = (if c = 0 then r else if c = 1 then g else b)"

text \<open>\<^verbatim>\<open>F.to_tensor\<close>: channel-first, every band value divided by 255.\<close>

definition to_tensor :: "image \<Rightarrow> tensor" where
  "to_tensor img =
     \<lparr>shape = (nbands (mode img), height img, width img),
      data = map (\<lambda>c. map (map (\<lambda>p. real (band c p) / 255)) (rows img))
               [0 ..< nbands (mode img)]\<rparr>"

definition spatial :: "tensor \<Rightarrow> nat \<times> nat" where
  "spatial t = (fst (snd (shape t)), snd (snd (shape t)))"

text \<open>Elementwise arithmetic on a tensor, as \<^verbatim>\<open>(t - 0.5) / 0.5\<close> does.\<close>

definition tmap :: "(real \<Rightarrow> real) \<Rightarrow> tensor \<Rightarrow> tensor" where
  "tmap f t = t\<lparr>data := map (map (map f)) (data t)\<rparr>"


section \<open>transforms.py\<close>

definition normalize_photo :: "tensor \<Rightarrow> string \<Rightarrow> error + tensor" where
  "normalize_photo t m =
     (if m = ''tanh'' then Inr (tmap (\<lambda>v. (v - 0.5) / 0.5) t)
      else if m = ''01'' then Inr t
      else Inl (Unsupported_normalize_mode m))"


text \<open>
  The two random sources the transform reads: torch's generator (crop origin) and Python's
  \<^verbatim>\<open>random\<close> module (flip decision).  A state is the sequence of draws still to come;
  drawing takes its head.
\<close>

record rng =
  torch_rng :: "nat stream"
  py_rng :: "real stream"

text \<open>\<^verbatim>\<open>torch.randint(0, n, size=(1,)).item()\<close>\<close>

definition randint :: "nat \<Rightarrow> rng \<Rightarrow> nat \<times> rng" where
  "randint n g = (shd (torch_rng g) mod n, g\<lparr>torch_rng := stl (torch_rng g)\<rparr>)"

text \<open>\<^verbatim>\<open>random.random()\<close>\<close>

definition random :: "rng \<Rightarrow> real \<times> rng" where
  "random g = (shd (py_rng g), g\<lparr>py_rng := stl (py_rng g)\<rparr>)"

text \<open>
  The resampling filter of \<^verbatim>\<open>F.resize\<close> (bicubic) is the image library's: it is a
  parameter, giving the pixel at \<open>(x, y)\<close> of the image resized to \<open>nw \<times> nh\<close>.
\<close>

type_synonym resample = "image \<Rightarrow> nat \<Rightarrow> nat \<Rightarrow> nat \<Rightarrow> nat \<Rightarrow> pixel"

text \<open>
  \<^verbatim>\<open>F.resize(img, size)\<close> with an integer size: the shorter edge becomes \<open>size\<close>, the
  longer one \<open>int(size * long / short)\<close>.
\<close>

definition resized_size :: "nat \<Rightarrow> nat \<Rightarrow> nat \<Rightarrow> nat \<times> nat" where
  "resized_size w h s =
     (let short = (if w \<le> h then w else h);
          long = (if w \<le> h then h else w);
          new_short = s;
          new_long = (s * long) div short
      in if w \<le> h then (new_short, new_long) else (new_long, new_short))"

definition resize :: "resample \<Rightarrow> image \<Rightarrow> nat \<Rightarrow> error + image" where
  "resize f img s =
     (let (nw, nh) = resized_size (width img) (height img) s
      in if width img = 0 \<or> height img = 0 \<or> nw = 0 \<or> nh = 0 then Inl Invalid_resize_target
         else Inr (img\<lparr>width := nw, height := nh,
                       rows := map (\<lambda>y. map (\<lambda>x. f img nw nh x y) [0 ..< nw]) [0 ..< nh]\<rparr>))"

text \<open>\<^verbatim>\<open>F.crop(img, top, left, h, w)\<close>\<close>

definition crop :: "image \<Rightarrow> nat \<Rightarrow> nat \<Rightarrow> nat \<Rightarrow> nat \<Rightarrow> image" where
  "crop img i j h w = crop_box img j i (j + w) (i + h)"

text \<open>\<^verbatim>\<open>transforms.RandomCrop.get_params(img, output_size=(th, tw))\<close>\<close>

definition get_params :: "image \<Rightarrow> nat \<Rightarrow> nat \<Rightarrow> rng \<Rightarrow> (error + nat \<times> nat \<times> nat \<times> nat) \<times> rng" where
  "get_params img th tw g =
     (let h = height img; w = width img
      in if h < th \<or> w < tw then (Inl Crop_larger_than_input, g)
         else if w = tw \<and> h = th then (Inr (0, 0, h, w), g)
         else let (i, g1) = randint (h - th + 1) g;
                  (j, g2) = randint (w - tw + 1) g1
              in (Inr (i, j, th, tw), g2))"

definition random_crop_pair ::
  "image \<Rightarrow> image \<Rightarrow> nat \<Rightarrow> rng \<Rightarrow> (error + image \<times> image) \<times> rng" where
  "random_crop_pair label photo sz g =
     (case get_params photo sz sz g of
        (Inl e, g') \<Rightarrow> (Inl e, g')
      | (Inr (i, j, h, w), g') \<Rightarrow> (Inr (crop label i j h w, crop photo i j h w), g'))"

definition hflip :: "image \<Rightarrow> image" where
  "hflip img = img\<lparr>rows := map rev (rows img)\<rparr>"

text \<open>
  \<^verbatim>\<open>build_transform(image_size, jitter, normalize_mode, horizontal_flip)\<close> returns the
  closure \<^verbatim>\<open>_transform(label, photo)\<close>; the closure also reads and advances the random
  sources.
\<close>

definition resize_stage ::
  "resample \<Rightarrow> nat \<Rightarrow> bool \<Rightarrow> image \<Rightarrow> image \<Rightarrow> rng \<Rightarrow> (error + image \<times> image) \<times> rng" where
  "resize_stage f image_size jitter label photo g =
     (if jitter then
        (case resize f label 286 of
           Inl e \<Rightarrow> (Inl e, g)
         | Inr label1 \<Rightarrow>
            (case resize f photo 286 of
               Inl e \<Rightarrow> (Inl e, g)
             | Inr photo1 \<Rightarrow> random_crop_pair label1 photo1 image_size g))
      else
        (case resize f label image_size of
           Inl e \<Rightarrow> (Inl e, g)
         | Inr label1 \<Rightarrow>
            (case resize f photo image_size of
               Inl e \<Rightarrow> (Inl e, g)
             | Inr photo1 \<Rightarrow> (Inr (label1, photo1), g))))"

definition flip_stage :: "bool \<Rightarrow> image \<Rightarrow> image \<Rightarrow> rng \<Rightarrow> (image \<times> image) \<times> rng" where
  "flip_stage horizontal_flip label photo g =
     (if horizontal_flip then
        (let (r, g') = random g
         in if r < 0.5 then ((hflip label, hflip photo), g') else ((label, photo), g'))
      else ((label, photo), g))"

definition build_transform ::
  "resample \<Rightarrow> nat \<Rightarrow> bool \<Rightarrow> string \<Rightarrow> bool \<Rightarrow>
     image \<Rightarrow> image \<Rightarrow> rng \<Rightarrow> (error + tensor \<times> tensor) \<times> rng" where
  "build_transform f image_size jitter normalize_mode horizontal_flip label photo g =
     (case resize_stage f image_size jitter label photo g of
        (Inl e, g1) \<Rightarrow> (Inl e, g1)
      | (Inr (label1, photo1), g1) \<Rightarrow>
         (case flip_stage horizontal_flip label1 photo1 g1 of
            ((label2, photo2), g2) \<Rightarrow>
              (let label_t = to_tensor label2;
                   photo_t = to_tensor photo2
               in case normalize_photo photo_t normalize_mode of
                    Inl e \<Rightarrow> (Inl e, g2)
                  | Inr photo_n \<Rightarrow> (Inr (label_t, photo_n), g2))))"

section \<open>Paths and the file system\<close>

text \<open>
  A path is the list of its components.  The file system is a finite table from paths to
  nodes: a directory, an image file, or the split index.  An image file is given by its
  format and the image it decodes to.  The path \<open>[]\<close> is the directory every relative
  path starts from; it always exists.
\<close>

datatype format = JPEG | PNG

type_synonym payload = "(string \<times> string list) list"

datatype node = Dir | Image_file format image | Json_file payload | Other_file

type_synonym fs = "(path \<times> node) list"

definition lookup :: "fs \<Rightarrow> path \<Rightarrow> node option" where
  "lookup fs p = (if p = [] then Some Dir else map_of fs p)"

text \<open>\<^verbatim>\<open>Path.exists()\<close>, \<^verbatim>\<open>Path.parent\<close>, \<^verbatim>\<open>Path.name\<close>\<close>

definition exists :: "fs \<Rightarrow> path \<Rightarrow> bool" where
  "exists fs p \<longleftrightarrow> lookup fs p \<noteq> None"

definition parent :: "path \<Rightarrow> path" where
  "parent p = butlast p"

definition path_name :: "path \<Rightarrow> string" where
  "path_name p = (if p = [] then [] else last p)"

text \<open>
  \<^verbatim>\<open>Path.stem\<close>: the name up to its last dot, when that dot is neither the first nor the
  last character of the name (\<^verbatim>\<open>i = name.rfind('.')\<close>, \<^verbatim>\<open>0 < i < len(name) - 1\<close>).
\<close>

definition rfind_dot :: "string \<Rightarrow> nat option" where
  "rfind_dot s =
     (if CHR ''.'' \<in> set s
      then Some (length s - 1 - length (takeWhile (\<lambda>c. c \<noteq> CHR ''.'') (rev s)))
      else None)"

definition stem_of_name :: "string \<Rightarrow> string" where
  "stem_of_name s =
     (case rfind_dot s of
        None \<Rightarrow> s
      | Some i \<Rightarrow> if 0 < i \<and> i < length s - 1 then take i s else s)"

definition stem :: "path \<Rightarrow> string" where
  "stem p = stem_of_name (path_name p)"

text \<open>
  \<^verbatim>\<open>Path.mkdir(parents=True, exist_ok=True)\<close>, on the reversed path: an existing
  directory is left alone, an existing file is an error, a missing parent is created first.
\<close>

fun mkdir_rev :: "fs \<Rightarrow> string list \<Rightarrow> error + fs" where
  "mkdir_rev fs [] = Inr fs"
| "mkdir_rev fs (c # rp) =
     (let d = rev (c # rp) in
      case lookup fs d of
        Some Dir \<Rightarrow> Inr fs
      | Some _ \<Rightarrow> Inl (File_exists d)
      | None \<Rightarrow>
         (case lookup fs (rev rp) of
            Some Dir \<Rightarrow> Inr (AList.update d Dir fs)
          | Some _ \<Rightarrow> Inl (Not_a_directory d)
          | None \<Rightarrow>
             (case mkdir_rev fs rp of
                Inl e \<Rightarrow> Inl e
              | Inr fs1 \<Rightarrow> Inr (AList.update d Dir fs1))))"

definition mkdir :: "fs \<Rightarrow> path \<Rightarrow> error + fs" where
  "mkdir fs d = mkdir_rev fs (rev d)"

text \<open>Opening a path for writing and storing a file there.\<close>

definition write_file :: "fs \<Rightarrow> path \<Rightarrow> node \<Rightarrow> error + fs" where
  "write_file fs p n =
     (case lookup fs p of
        Some Dir \<Rightarrow> Inl (Is_a_directory p)
      | _ \<Rightarrow>
         (case lookup fs (parent p) of
            Some Dir \<Rightarrow> Inr (AList.update p n fs)
          | Some _ \<Rightarrow> Inl (Not_a_directory p)
          | None \<Rightarrow> Inl (No_such_file p)))"

text \<open>\<^verbatim>\<open>Image.open(path)\<close>\<close>

definition image_open :: "fs \<Rightarrow> path \<Rightarrow> error + image" where
  "image_open fs p =
     (case lookup fs p of
        None \<Rightarrow> Inl (No_such_file p)
      | Some Dir \<Rightarrow> Inl (Is_a_directory p)
      | Some (Image_file fmt img) \<Rightarrow> Inr img
      | Some _ \<Rightarrow> Inl (Cannot_identify_image p))"

text \<open>
  \<^verbatim>\<open>split_dir.glob("*.jpg")\<close>: the entries of the directory whose name ends in
  \<^verbatim>\<open>.jpg\<close>, in the order the table lists them; nothing when the path is not a directory.
\<close>

definition glob_jpg :: "fs \<Rightarrow> path \<Rightarrow> path list" where
  "glob_jpg fs d =
     (case lookup fs d of
        Some Dir \<Rightarrow>
          remdups (filter (\<lambda>p. p \<noteq> [] \<and> parent p = d \<and> suffix ''.jpg'' (path_name p)) (map fst fs))
      | _ \<Rightarrow> [])"

section \<open>prepare_cityscapes.py\<close>

text \<open>
  The JPEG encoder is lossy: \<open>jpeg img\<close> is the image a JPEG file written from \<open>img\<close>
  decodes to.  It belongs to the image library and is a parameter.  The result of
  \<open>split_and_save\<close> is the exception raised, if any, and the file system it leaves.
\<close>

definition split_and_save ::
  "(image \<Rightarrow> image) \<Rightarrow> path \<Rightarrow> path \<Rightarrow> path \<Rightarrow> bool \<Rightarrow> fs \<Rightarrow> error option \<times> fs" where
  "split_and_save jpeg img_path photo_path label_path overwrite fs =
     (if \<not> overwrite \<and> exists fs photo_path \<and> exists fs label_path then (None, fs)
      else
        case image_open fs img_path of
          Inl e \<Rightarrow> (Some e, fs)
        | Inr img \<Rightarrow>
           (let w = width img; h = height img in
            if w mod 2 \<noteq> 0 then (Some (Width_not_divisible_by_2 img_path), fs)
            else
              let mid = w div 2;
                  photo = convert_RGB (crop_box img 0 0 mid h);
                  label = convert_RGB (crop_box img mid 0 w h)
              in case mkdir fs (parent photo_path) of
                   Inl e \<Rightarrow> (Some e, fs)
                 | Inr fs1 \<Rightarrow>
                    (case mkdir fs1 (parent label_path) of
                       Inl e \<Rightarrow> (Some e, fs1)
                     | Inr fs2 \<Rightarrow>
                        (case write_file fs2 photo_path (Image_file JPEG (jpeg photo)) of
                           Inl e \<Rightarrow> (Some e, fs2)
                         | Inr fs3 \<Rightarrow>
                            (case write_file fs3 label_path (Image_file PNG label) of
                               Inl e \<Rightarrow> (Some e, fs3)
                             | Inr fs4 \<Rightarrow> (None, fs4))))))"

text \<open>The split mapping is a dictionary in insertion order: \<open>train\<close>, then \<open>val\<close>.\<close>

type_synonym splits = "(string \<times> path list) list"

fun collect_loop :: "fs \<Rightarrow> path \<Rightarrow> string list \<Rightarrow> splits \<Rightarrow> error + splits" where
  "collect_loop fs raw_dir [] acc = Inr acc"
| "collect_loop fs raw_dir (split # rest) acc =
     (let split_dir = raw_dir @ [split] in
      if \<not> exists fs split_dir then Inl (Missing_split_directory split_dir)
      else
        let files = sort (glob_jpg fs split_dir) in
        if files = [] then Inl (No_jpg_files_found split_dir)
        else collect_loop fs raw_dir rest (acc @ [(split, files)]))"

definition collect_files :: "fs \<Rightarrow> path \<Rightarrow> error + splits" where
  "collect_files fs raw_dir = collect_loop fs raw_dir [''train'', ''val''] []"

definition write_split_file :: "path \<Rightarrow> splits \<Rightarrow> fs \<Rightarrow> error option \<times> fs" where
  "write_split_file split_file splits fs =
     (case mkdir fs (parent split_file) of
        Inl e \<Rightarrow> (Some e, fs)
      | Inr fs1 \<Rightarrow>
         (let payload = map (\<lambda>(k, v). (k, map path_name v)) splits in
          case write_file fs1 split_file (Json_file payload) of
            Inl e \<Rightarrow> (Some e, fs1)
          | Inr fs2 \<Rightarrow> (None, fs2)))"

text \<open>The two loops of \<open>process_dataset\<close>: over the files of a split, over the splits.\<close>

fun process_files ::
  "(image \<Rightarrow> image) \<Rightarrow> path \<Rightarrow> bool \<Rightarrow> string \<Rightarrow> path list \<Rightarrow> fs \<Rightarrow> error option \<times> fs" where
  "process_files jpeg out_dir overwrite split [] fs = (None, fs)"
| "process_files jpeg out_dir overwrite split (img_path # rest) fs =
     (let st = stem img_path;
          photo_path = out_dir @ [split, ''photo'', st @ ''_photo.jpg''];
          label_path = out_dir @ [split, ''label'', st @ ''_label.png'']
      in case split_and_save jpeg img_path photo_path label_path overwrite fs of
           (Some e, fs1) \<Rightarrow> (Some e, fs1)
         | (None, fs1) \<Rightarrow> process_files jpeg out_dir overwrite split rest fs1)"

fun process_splits ::
  "(image \<Rightarrow> image) \<Rightarrow> path \<Rightarrow> bool \<Rightarrow> splits \<Rightarrow> fs \<Rightarrow> error option \<times> fs" where
  "process_splits jpeg out_dir overwrite [] fs = (None, fs)"
| "process_splits jpeg out_dir overwrite ((split, files) # rest) fs =
     (case process_files jpeg out_dir overwrite split files fs of
        (Some e, fs1) \<Rightarrow> (Some e, fs1)
      | (None, fs1) \<Rightarrow> process_splits jpeg out_dir overwrite rest fs1)"

definition process_dataset ::
  "(image \<Rightarrow> image) \<Rightarrow> path \<Rightarrow> path \<Rightarrow> bool \<Rightarrow> fs \<Rightarrow> (error + splits) \<times> fs" where
  "process_dataset jpeg raw_dir out_dir overwrite fs =
     (case collect_files fs raw_dir of
        Inl e \<Rightarrow> (Inl e, fs)
      | Inr splits \<Rightarrow>
         (case process_splits jpeg out_dir overwrite splits fs of
            (Some e, fs1) \<Rightarrow> (Inl e, fs1)
          | (None, fs1) \<Rightarrow> (Inr splits, fs1)))"

text \<open>\<open>main\<close>: process the dataset, then write the split index.\<close>

definition main ::
  "(image \<Rightarrow> image) \<Rightarrow> path \<Rightarrow> path \<Rightarrow> path \<Rightarrow> bool \<Rightarrow> fs \<Rightarrow> error option \<times> fs" where
  "main jpeg raw_dir out_dir split_file overwrite fs =
     (case process_dataset jpeg raw_dir out_dir overwrite fs of
        (Inl e, fs1) \<Rightarrow> (Some e, fs1)
      | (Inr splits, fs1) \<Rightarrow> write_split_file split_file splits fs1)"

section \<open>dataset.py\<close>

text \<open>\<^verbatim>\<open>Path(name)\<close> for a string: the components between slashes.\<close>

fun split_slash :: "string \<Rightarrow> string list" where
  "split_slash [] = [ []]"
| "split_slash (c # cs) =
     (if c = CHR ''/'' then [] # split_slash cs
      else (case split_slash cs of
              [] \<Rightarrow> [ [c]]
            | w # ws \<Rightarrow> (c # w) # ws))"

definition parse_path :: "string \<Rightarrow> path" where
  "parse_path s = filter (\<lambda>c. c \<noteq> [] \<and> c \<noteq> ''.'') (split_slash s)"

text \<open>
  \<^verbatim>\<open>xs[i]\<close> on a Python list: a negative index counts from the end, and an index that
  is still out of range after that raises \<^verbatim>\<open>IndexError\<close>.
\<close>

definition list_getitem :: "'a list \<Rightarrow> int \<Rightarrow> error + 'a" where
  "list_getitem xs i =
     (if i < 0 then
        (if - i \<le> int (length xs) then Inr (xs ! nat (int (length xs) + i))
         else Inl List_index_out_of_range)
      else
        (if i < int (length xs) then Inr (xs ! nat i)
         else Inl List_index_out_of_range))"

type_synonym transform =
  "image \<Rightarrow> image \<Rightarrow> rng \<Rightarrow> (error + tensor \<times> tensor) \<times> rng"

record dataset =
  root_dir :: path
  split :: string
  transform :: "transform option"
  files :: "string list"
  photo_dir :: path
  label_dir :: path

text \<open>\<^verbatim>\<open>CityscapesDataset.__init__\<close>\<close>

definition init :: "path \<Rightarrow> string \<Rightarrow> path \<Rightarrow> transform option \<Rightarrow> fs \<Rightarrow> error + dataset" where
  "init rt sp split_index tf fs =
     (case lookup fs split_index of
        None \<Rightarrow> Inl (No_such_file split_index)
      | Some Dir \<Rightarrow> Inl (Is_a_directory split_index)
      | Some (Json_file splits) \<Rightarrow>
         (case map_of splits sp of
            None \<Rightarrow> Inl (Split_not_found sp)
          | Some fl \<Rightarrow>
             Inr \<lparr>root_dir = rt, split = sp, transform = tf, files = fl,
                  photo_dir = rt @ [''processed'', sp, ''photo''],
                  label_dir = rt @ [''processed'', sp, ''label'']\<rparr>)
      | Some _ \<Rightarrow> Inl (Json_decode_error split_index))"

text \<open>\<^verbatim>\<open>CityscapesDataset.__len__\<close>\<close>

definition len :: "dataset \<Rightarrow> int" where
  "len ds = int (length (files ds))"

text \<open>
  The sample record: label and photo are images when no transform was given, and what the
  transform returned otherwise.
\<close>

datatype sample_data = Img image | Tens tensor

record sample =
  label :: sample_data
  photo :: sample_data
  name :: string

text \<open>\<^verbatim>\<open>CityscapesDataset.__getitem__\<close>\<close>

definition getitem :: "dataset \<Rightarrow> int \<Rightarrow> fs \<Rightarrow> rng \<Rightarrow> (error + sample) \<times> rng" where
  "getitem ds idx fs g =
     (case list_getitem (files ds) idx of
        Inl e \<Rightarrow> (Inl e, g)
      | Inr nm \<Rightarrow>
         (let st = stem (parse_path nm);
              photo_path = photo_dir ds @ [st @ ''_photo.jpg''];
              label_path = label_dir ds @ [st @ ''_label.png'']
          in case image_open fs photo_path of
               Inl e \<Rightarrow> (Inl e, g)
             | Inr ph0 \<Rightarrow>
                (case image_open fs label_path of
                   Inl e \<Rightarrow> (Inl e, g)
                 | Inr lb0 \<Rightarrow>
                    (let ph = convert_RGB ph0; lb = convert_RGB lb0 in
                     case transform ds of
                       None \<Rightarrow> (Inr \<lparr>label = Img lb, photo = Img ph, name = nm\<rparr>, g)
                     | Some tf \<Rightarrow>
                        (case tf lb ph g of
                           (Inl e, g') \<Rightarrow> (Inl e, g')
                         | (Inr (lt, pt), g') \<Rightarrow>
                            (Inr \<lparr>label = Tens lt, photo = Tens pt, name = nm\<rparr>, g'))))))"

section \<open>Concrete inputs\<close>


definition src42 :: image where
  "src42 = \<lparr>mode = ModeRGB, width = 4, height = 2,
     rows = [ [RGB 10 10 10, RGB 20 20 20, RGB 1 0 0, RGB 2 0 0],
             [RGB 30 30 30, RGB 40 40 40, RGB 3 0 0, RGB 4 0 0]]\<rparr>"

definition src31 :: image where
  "src31 = \<lparr>mode = ModeRGB, width = 3, height = 1,
     rows = [ [RGB 10 10 10, RGB 20 20 20, RGB 1 0 0]]\<rparr>"

definition stale :: image where
  "stale = \<lparr>mode = ModeRGB, width = 1, height = 1, rows = [ [RGB 9 9 9]]\<rparr>"

definition ex_src :: path where
  "ex_src = [''raw'', ''train'', ''1.jpg'']"

definition ex_photo :: path where
  "ex_photo = [''out'', ''train'', ''photo'', ''1_photo.jpg'']"

definition ex_label :: path where
  "ex_label = [''out'', ''train'', ''label'', ''1_label.png'']"

text \<open>A raw tree with one even-width source and nothing processed yet.\<close>

definition fs_fresh :: fs where
  "fs_fresh = [([''raw''], Dir), ([''raw'', ''train''], Dir), (ex_src, Image_file JPEG src42)]"

text \<open>The same source, with a stale photo file already in place and no label file.\<close>

definition fs_half :: fs where
  "fs_half = [([''raw''], Dir), ([''raw'', ''train''], Dir), (ex_src, Image_file JPEG src42),
              ([''out''], Dir), ([''out'', ''train''], Dir), ([''out'', ''train'', ''photo''], Dir),
              (ex_photo, Image_file JPEG stale)]"

text \<open>An odd-width source, nothing processed yet.\<close>

definition fs_odd :: fs where
  "fs_odd = [([''raw''], Dir), ([''raw'', ''train''], Dir), (ex_src, Image_file JPEG src31)]"

text \<open>An odd-width source whose two destination files both exist already.\<close>

definition fs_odd_done :: fs where
  "fs_odd_done = [([''raw''], Dir), ([''raw'', ''train''], Dir), (ex_src, Image_file JPEG src31),
              ([''out''], Dir), ([''out'', ''train''], Dir), ([''out'', ''train'', ''photo''], Dir),
              ([''out'', ''train'', ''label''], Dir),
              (ex_photo, Image_file JPEG stale), (ex_label, Image_file PNG stale)]"

text \<open>A raw tree whose \<open>train\<close> directory holds no \<^verbatim>\<open>.jpg\<close> and whose \<open>val\<close> is absent.\<close>

definition fs_no_val :: fs where
  "fs_no_val = [([''raw''], Dir), ([''raw'', ''train''], Dir),
                ([''raw'', ''train'', ''notes.txt''], Other_file)]"

text \<open>A raw tree with several entries per split.\<close>

definition fs_many :: fs where
  "fs_many = [([''raw''], Dir), ([''raw'', ''train''], Dir), ([''raw'', ''val''], Dir),
              ([''raw'', ''train'', ''2.jpg''], Image_file JPEG src42),
              ([''raw'', ''train'', ''10.jpg''], Image_file JPEG src42),
              ([''raw'', ''train'', ''notes.txt''], Other_file),
              ([''raw'', ''val'', ''2.jpg''], Image_file JPEG src42)]"

text \<open>\<^verbatim>\<open>train/1.jpg\<close> and \<^verbatim>\<open>val/2.jpg\<close>.\<close>

definition fs_two :: fs where
  "fs_two = [([''raw''], Dir), ([''raw'', ''train''], Dir), ([''raw'', ''val''], Dir),
             ([''raw'', ''train'', ''1.jpg''], Image_file JPEG src42),
             ([''raw'', ''val'', ''2.jpg''], Image_file JPEG src42)]"

text \<open>\<^verbatim>\<open>train/1.jpg\<close> and \<^verbatim>\<open>val/1.jpg\<close>: the same file name in both splits.\<close>

definition fs_same :: fs where
  "fs_same = [([''raw''], Dir), ([''raw'', ''train''], Dir), ([''raw'', ''val''], Dir),
              ([''raw'', ''train'', ''1.jpg''], Image_file JPEG src42),
              ([''raw'', ''val'', ''1.jpg''], Image_file JPEG src42)]"

text \<open>A processed tree with one sample in \<open>train\<close>, and a dataset over it.\<close>

definition fs_processed :: fs where
  "fs_processed =
     [([''data'', ''processed'', ''train'', ''photo'', ''1_photo.jpg''], Image_file JPEG stale),
      ([''data'', ''processed'', ''train'', ''label'', ''1_label.png''], Image_file PNG stale)]"

definition ds_example :: dataset where
  "ds_example = \<lparr>root_dir = [''data''], split = ''train'', transform = None,
     files = [''1.jpg''],
     photo_dir = [''data'', ''processed'', ''train'', ''photo''],
     label_dir = [''data'', ''processed'', ''train'', ''label'']\<rparr>"

text \<open>A state of the random sources.\<close>

definition rng0 :: rng where
  "rng0 = \<lparr>torch_rng = sconst 0, py_rng = sconst 0\<rparr>"

section \<open>Notions used in the proofs\<close>





section \<open>Properties of transforms.py\<close>




text \<open>
  C10.  The transform built with \<open>jitter = False\<close> and \<open>horizontal_flip = False\<close> leaves
  both random sources as it found them, and its result (tensors or error) is the same
  whatever the state of the random sources: it is a function of the two input images.
\<close>

theorem no_jitter_no_flip_deterministic:
  "snd (build_transform f n False m False lab pho g) = g
   \<and> fst (build_transform f n False m False lab pho g)
     = fst (build_transform f n False m False lab pho g')"
  by (auto simp: build_transform_def resize_stage_def flip_stage_def
           split: sum.splits prod.splits)

text \<open>
  C1.  The claim fails on the code.  With \<open>jitter = False\<close> the transform calls
  \<^verbatim>\<open>F.resize(img, image_size)\<close> with an integer, which scales the shorter edge to
  \<open>image_size\<close> and keeps the aspect ratio.  A pair of 512 \<times> 256 images transformed with
  \<open>image_size = 256\<close> comes out 256 high and 512 wide, whatever the resampling filter,
  the pixels and the random sources are.
\<close>

theorem resize_only_not_square:
  "\<exists>lt pt.
     fst (build_transform f 256 False ''tanh'' False
            \<lparr>mode = ModeRGB, width = 512, height = 256, rows = lpx\<rparr>
            \<lparr>mode = ModeRGB, width = 512, height = 256, rows = ppx\<rparr> g) = Inr (lt, pt)
     \<and> spatial lt = (256, 512) \<and> spatial pt = (256, 512) \<and> spatial lt \<noteq> (256, 256)"
  by (simp add: build_transform_def resize_stage_def flip_stage_def resize_def
        resized_size_def to_tensor_def normalize_photo_def spatial_def tmap_def)

text \<open>
  With \<open>jitter = True\<close> the crop does give both outputs the size
  \<open>image_size \<times> image_size\<close>, whenever the transform returns.
\<close>

lemma jitter_output_square:
  assumes "fst (build_transform f n True m hf lab pho g) = Inr (lt, pt)"
  shows "spatial lt = (n, n) \<and> spatial pt = (n, n)"
  using assms
  by (auto simp: build_transform_def resize_stage_def random_crop_pair_def get_params_def
        flip_stage_def crop_def crop_box_def hflip_def to_tensor_def normalize_photo_def
        spatial_def tmap_def Let_def
      split: sum.splits prod.splits if_splits)

section \<open>Properties of the file system operations\<close>

lemma lookup_update:
  "k \<noteq> [] \<Longrightarrow> lookup (AList.update k v fs) p = (if p = k then Some v else lookup fs p)"
  by (simp add: lookup_def update_conv')

lemma mkdir_rev_props:
  "mkdir_rev fs rp = Inr fs' \<Longrightarrow>
     lookup fs' (rev rp) = Some Dir
     \<and> (\<forall>p n. lookup fs p = Some n \<longrightarrow> lookup fs' p = Some n)
     \<and> (\<forall>p. exists fs' p \<longrightarrow> exists fs p \<or> prefix p (rev rp))"
proof (induction rp arbitrary: fs')
  case Nil
  then show ?case by (simp add: lookup_def)
next
  case (Cons c rp)
  let ?d = "rev (c # rp)"
  have dne: "?d \<noteq> []" by simp
  show ?case
  proof (cases "lookup fs ?d")
    case (Some n)
    with Cons.prems have "n = Dir" "fs' = fs"
      by (auto simp: Let_def split: node.splits)
    with Some show ?thesis by simp
  next
    case None
    note d_none = None
    show ?thesis
    proof (cases "lookup fs (rev rp)")
      case (Some m)
      with d_none Cons.prems have fs': "fs' = AList.update ?d Dir fs"
        by (auto simp: Let_def split: node.splits)
      show ?thesis unfolding fs' using d_none
        by (auto simp: lookup_update exists_def)
    next
      case None
      with d_none Cons.prems obtain fs1 where
        1: "mkdir_rev fs rp = Inr fs1" and fs': "fs' = AList.update ?d Dir fs1"
        by (auto simp: Let_def split: sum.splits)
      from Cons.IH [OF 1] have
        ih: "\<forall>p n. lookup fs p = Some n \<longrightarrow> lookup fs1 p = Some n"
            "\<forall>p. exists fs1 p \<longrightarrow> exists fs p \<or> prefix p (rev rp)"
        by blast+
      show ?thesis unfolding fs' using d_none ih
        by (auto simp: lookup_update exists_def)
    qed
  qed
qed

lemma mkdir_props:
  "mkdir fs d = Inr fs' \<Longrightarrow>
     lookup fs' d = Some Dir
     \<and> (\<forall>p n. lookup fs p = Some n \<longrightarrow> lookup fs' p = Some n)
     \<and> (\<forall>p. exists fs' p \<longrightarrow> exists fs p \<or> prefix p d)"
  using mkdir_rev_props [of fs "rev d" fs'] by (simp add: mkdir_def)

lemma write_file_props:
  "write_file fs p n = Inr fs' \<Longrightarrow>
     p \<noteq> [] \<and> lookup fs p \<noteq> Some Dir \<and> (\<forall>q. lookup fs' q = (if q = p then Some n else lookup fs q))"
  by (cases "p = []")
     (auto simp: write_file_def lookup_update split: option.splits node.splits, auto simp: lookup_def)

section \<open>Properties of prepare_cityscapes.py\<close>


lemma split_and_save_run:
  assumes run: "overwrite \<or> \<not> exists fs ph \<or> \<not> exists fs lb"
    and ok: "split_and_save jpeg src ph lb overwrite fs = (None, fs')"
  shows "\<exists>img. image_open fs src = Inr img \<and> even (width img)
     \<and> lookup fs' lb = Some (Image_file PNG
          (convert_RGB (crop_box img (width img div 2) 0 (width img) (height img))))
     \<and> (ph \<noteq> lb \<longrightarrow> lookup fs' ph = Some (Image_file JPEG
          (jpeg (convert_RGB (crop_box img 0 0 (width img div 2) (height img))))))
     \<and> (\<forall>p. exists fs p \<longrightarrow> exists fs' p)
     \<and> (\<forall>p. lookup fs p = Some Dir \<longrightarrow> lookup fs' p = Some Dir)
     \<and> (\<forall>p. exists fs' p \<longrightarrow> exists fs p \<or> prefix p ph \<or> prefix p lb)"
proof -
  from run have ns: "\<not> (\<not> overwrite \<and> exists fs ph \<and> exists fs lb)" by blast
  from ok ns obtain img where img: "image_open fs src = Inr img"
    by (auto simp: split_and_save_def split: sum.splits)
  from ok ns img have ev: "even (width img)"
    by (auto simp: split_and_save_def Let_def split: if_splits)
  let ?photo = "convert_RGB (crop_box img 0 0 (width img div 2) (height img))"
  let ?label = "convert_RGB (crop_box img (width img div 2) 0 (width img) (height img))"
  from ok ns img ev obtain fs1 fs2 fs3 where
    1: "mkdir fs (parent ph) = Inr fs1" and
    2: "mkdir fs1 (parent lb) = Inr fs2" and
    3: "write_file fs2 ph (Image_file JPEG (jpeg ?photo)) = Inr fs3" and
    4: "write_file fs3 lb (Image_file PNG ?label) = Inr fs'"
    by (auto simp: split_and_save_def Let_def split: sum.splits if_splits)
  note m1 = mkdir_props [OF 1] and m2 = mkdir_props [OF 2]
    and w3 = write_file_props [OF 3] and w4 = write_file_props [OF 4]
  have a: "lookup fs' lb = Some (Image_file PNG ?label)" using w4 by simp
  have b: "ph \<noteq> lb \<longrightarrow> lookup fs' ph = Some (Image_file JPEG (jpeg ?photo))"
    using w3 w4 by simp
  have c: "\<forall>p. exists fs p \<longrightarrow> exists fs' p"
    using m1 m2 w3 w4 by (auto simp: exists_def)
  have d: "\<forall>p. lookup fs p = Some Dir \<longrightarrow> lookup fs' p = Some Dir"
  proof (intro allI impI)
    fix p assume "lookup fs p = Some Dir"
    with m1 m2 have "lookup fs2 p = Some Dir" by blast
    with w3 have "lookup fs3 p = Some Dir" by auto
    with w4 show "lookup fs' p = Some Dir" by auto
  qed
  have pp: "\<And>p q. prefix p (parent q) \<Longrightarrow> prefix p q"
    by (metis parent_def prefix_order.order_trans prefixeq_butlast)
  have e: "\<forall>p. exists fs' p \<longrightarrow> exists fs p \<or> prefix p ph \<or> prefix p lb"
  proof (intro allI impI)
    fix p assume "exists fs' p"
    with w4 have "p = lb \<or> exists fs3 p" by (auto simp: exists_def split: if_splits)
    with w3 have "p = lb \<or> p = ph \<or> exists fs2 p" by (auto simp: exists_def split: if_splits)
    with m2 have "p = lb \<or> p = ph \<or> prefix p (parent lb) \<or> exists fs1 p" by blast
    with m1 have "p = lb \<or> p = ph \<or> prefix p (parent lb) \<or> prefix p (parent ph) \<or> exists fs p"
      by blast
    then show "exists fs p \<or> prefix p ph \<or> prefix p lb" using pp by auto
  qed
  from img ev a b c d e show ?thesis by blast
qed





lemmas ex_defs = ex_src_def ex_photo_def ex_label_def src42_def src31_def stale_def
  fs_fresh_def fs_half_def fs_odd_def fs_odd_done_def
  fs_no_val_def fs_many_def fs_two_def fs_same_def
lemmas fs_defs = split_and_save_def image_open_def lookup_def exists_def mkdir_def write_file_def
  parent_def crop_box_def convert_RGB_def



text \<open>
  C6, as stated, fails: an odd-width source whose two destination files already exist,
  with \<open>overwrite\<close> false, is never opened, and the call returns without an error.
\<close>

theorem split_and_save_odd_skipped:
  "image_open fs_odd_done ex_src = Inr src31 \<and> odd (width src31)
   \<and> split_and_save id ex_src ex_photo ex_label False fs_odd_done = (None, fs_odd_done)"
  by (simp add: ex_defs fs_defs)

text \<open>
  C6, amended.  Unless the call is skipped (both destinations exist and \<open>overwrite\<close> is
  false), \<open>split_and_save\<close> on a source image of odd width raises
  \<^verbatim>\<open>ValueError("Image width not divisible by 2: ...")\<close> and leaves the file system as it
  found it: no directory is created and neither destination is written.
\<close>

theorem split_and_save_odd_width:
  assumes "image_open fs src = Inr img" and "odd (width img)"
    and "overwrite \<or> \<not> exists fs ph \<or> \<not> exists fs lb"
  shows "split_and_save jpeg src ph lb overwrite fs = (Some (Width_not_divisible_by_2 src), fs)"
  using assms by (auto simp: split_and_save_def Let_def odd_iff_mod_2_eq_one)

theorem split_and_save_odd_width_witness:
  "image_open fs_odd ex_src = Inr src31 \<and> odd (width src31) \<and> \<not> exists fs_odd ex_photo
   \<and> split_and_save id ex_src ex_photo ex_label False fs_odd
       = (Some (Width_not_divisible_by_2 ex_src), fs_odd)
   \<and> \<not> exists fs_odd ex_label"
proof -
  have h1: "image_open fs_odd ex_src = Inr src31"
    by (simp add: ex_defs fs_defs)
  have h2: "odd (width src31)"
    by (simp add: src31_def)
  have h3: "\<not> exists fs_odd ex_photo" "\<not> exists fs_odd ex_label"
    by (simp_all add: ex_defs fs_defs)
  then have h3': "False \<or> \<not> exists fs_odd ex_photo \<or> \<not> exists fs_odd ex_label"
    by simp
  from split_and_save_odd_width [OF h1 h2 h3'] h1 h2 h3 show ?thesis by simp
qed

text \<open>
  C9.  With \<open>overwrite\<close> false and exactly one of the two destinations present, the call is
  not skipped: it does what the call with \<open>overwrite\<close> true does, and when it completes
  both destinations hold the halves of the source, the one that existed being overwritten.
\<close>

theorem split_and_save_one_missing:
  assumes "\<not> overwrite" and "exists fs ph \<noteq> exists fs lb"
  shows "split_and_save jpeg src ph lb overwrite fs = split_and_save jpeg src ph lb True fs
     \<and> (\<forall>img. image_open fs src = Inr img
            \<and> fst (split_and_save jpeg src ph lb overwrite fs) = None \<longrightarrow>
          lookup (snd (split_and_save jpeg src ph lb overwrite fs)) ph
            = Some (Image_file JPEG
                (jpeg (convert_RGB (crop_box img 0 0 (width img div 2) (height img)))))
        \<and> lookup (snd (split_and_save jpeg src ph lb overwrite fs)) lb
            = Some (Image_file PNG
                (convert_RGB (crop_box img (width img div 2) 0 (width img) (height img)))))"
proof -
  from assms have run: "overwrite \<or> \<not> exists fs ph \<or> \<not> exists fs lb" and ne: "ph \<noteq> lb"
    by auto
  have 1: "split_and_save jpeg src ph lb overwrite fs = split_and_save jpeg src ph lb True fs"
    using assms by (auto simp: split_and_save_def)
  have 2: "lookup (snd (split_and_save jpeg src ph lb overwrite fs)) ph
            = Some (Image_file JPEG
                (jpeg (convert_RGB (crop_box img 0 0 (width img div 2) (height img)))))
        \<and> lookup (snd (split_and_save jpeg src ph lb overwrite fs)) lb
            = Some (Image_file PNG
                (convert_RGB (crop_box img (width img div 2) 0 (width img) (height img))))"
    if src: "image_open fs src = Inr img"
      and ok: "fst (split_and_save jpeg src ph lb overwrite fs) = None" for img
  proof -
    obtain fs' where r: "split_and_save jpeg src ph lb overwrite fs = (None, fs')"
      using ok by (cases "split_and_save jpeg src ph lb overwrite fs") simp
    from split_and_save_run [OF run r] src ne show ?thesis
      unfolding r snd_conv by auto
  qed
  from 1 2 show ?thesis by blast
qed

theorem split_and_save_one_missing_witness:
  "exists fs_half ex_photo \<and> \<not> exists fs_half ex_label
   \<and> lookup fs_half ex_photo = Some (Image_file JPEG stale)
   \<and> image_open fs_half ex_src = Inr src42
   \<and> fst (split_and_save id ex_src ex_photo ex_label False fs_half) = None
   \<and> lookup (snd (split_and_save id ex_src ex_photo ex_label False fs_half)) ex_photo
       = Some (Image_file JPEG \<lparr>mode = ModeRGB, width = 2, height = 2,
            rows = [ [RGB 10 10 10, RGB 20 20 20], [RGB 30 30 30, RGB 40 40 40]]\<rparr>)
   \<and> lookup (snd (split_and_save id ex_src ex_photo ex_label False fs_half)) ex_label
       = Some (Image_file PNG \<lparr>mode = ModeRGB, width = 2, height = 2,
            rows = [ [RGB 1 0 0, RGB 2 0 0], [RGB 3 0 0, RGB 4 0 0]]\<rparr>)"
proof -
  have e: "exists fs_half ex_photo" "\<not> exists fs_half ex_label"
    "lookup fs_half ex_photo = Some (Image_file JPEG stale)"
    by (simp_all add: ex_defs fs_defs)
  then have h2: "exists fs_half ex_photo \<noteq> exists fs_half ex_label"
    by simp
  have h3: "image_open fs_half ex_src = Inr src42"
    by (simp add: ex_defs fs_defs)
  have h4: "fst (split_and_save id ex_src ex_photo ex_label False fs_half) = None"
    by (simp add: ex_defs fs_defs)
  have "\<not> False" by simp
  from split_and_save_one_missing [OF this h2, of id ex_src] h3 h4 have
    "lookup (snd (split_and_save id ex_src ex_photo ex_label False fs_half)) ex_photo
       = Some (Image_file JPEG
            (id (convert_RGB (crop_box src42 0 0 (width src42 div 2) (height src42)))))"
    "lookup (snd (split_and_save id ex_src ex_photo ex_label False fs_half)) ex_label
       = Some (Image_file PNG
            (convert_RGB (crop_box src42 (width src42 div 2) 0 (width src42) (height src42))))"
    by blast+
  then show ?thesis using e h3 h4
    by (simp add: src42_def crop_box_def convert_RGB_def)
qed

lemma snoc_le_snoc: "d @ [a] \<le> d @ [b] \<longleftrightarrow> a \<le> (b :: 'a :: linorder)"
  by (induction d) auto

lemma path_split: "p \<noteq> [] \<Longrightarrow> p = parent p @ [path_name p]"
  by (simp add: parent_def path_name_def)

lemma glob_jpg_mem:
  "p \<in> set (glob_jpg fs d) \<longleftrightarrow>
     lookup fs d = Some Dir \<and> p \<noteq> [] \<and> exists fs p \<and> parent p = d \<and> suffix ''.jpg'' (path_name p)"
proof -
  have "p \<noteq> [] \<Longrightarrow> p \<in> fst ` set fs \<longleftrightarrow> exists fs p"
    by (auto simp: exists_def lookup_def map_of_eq_None_iff)
  then show ?thesis
    by (auto simp: glob_jpg_def split: option.splits node.splits)
qed

lemma glob_jpg_distinct: "distinct (glob_jpg fs d)"
  by (simp add: glob_jpg_def split: option.splits node.splits)

lemma same_dir_sorted:
  assumes "sorted ps" and "\<forall>p \<in> set ps. p \<noteq> [] \<and> parent p = d"
  shows "sorted (map path_name ps)"
proof -
  have "sorted_wrt (\<lambda>p q. path_name p \<le> path_name q) ps"
  proof (rule sorted_wrt_mono_rel [of ps "(\<le>)"])
    fix p q assume "p \<in> set ps" "q \<in> set ps" "p \<le> q"
    with assms(2) have "p = d @ [path_name p]" "q = d @ [path_name q]"
      using path_split by metis+
    with \<open>p \<le> q\<close> show "path_name p \<le> path_name q"
      using snoc_le_snoc by metis
  next
    show "sorted ps" by (rule assms(1))
  qed
  then show ?thesis by (simp add: sorted_map)
qed

lemma same_dir_distinct:
  assumes "distinct ps" and "\<forall>p \<in> set ps. p \<noteq> [] \<and> parent p = d"
  shows "distinct (map path_name ps)"
proof -
  have "inj_on path_name (set ps)"
  proof (rule inj_onI)
    fix p q assume "p \<in> set ps" "q \<in> set ps" "path_name p = path_name q"
    with assms(2) have "p = d @ [path_name p]" "q = d @ [path_name q]"
      using path_split by metis+
    with \<open>path_name p = path_name q\<close> show "p = q" by simp
  qed
  with assms(1) show ?thesis by (simp add: distinct_map)
qed

lemma glob_sorted_names: "sorted (map path_name (sort (glob_jpg fs d)))"
  by (rule same_dir_sorted [of _ d]) (auto simp: glob_jpg_mem)

lemma glob_distinct_names: "distinct (map path_name (sort (glob_jpg fs d)))"
  by (rule same_dir_distinct [of _ d]) (auto simp: glob_jpg_mem glob_jpg_distinct)

lemma sort_eq_Nil: "sort xs = [] \<longleftrightarrow> xs = []"
  by (metis length_sort length_0_conv)

lemma collect_files_unfold:
  "collect_files fs raw =
     (if \<not> exists fs (raw @ [''train'']) then Inl (Missing_split_directory (raw @ [''train'']))
      else if glob_jpg fs (raw @ [''train'']) = [] then Inl (No_jpg_files_found (raw @ [''train'']))
      else if \<not> exists fs (raw @ [''val'']) then Inl (Missing_split_directory (raw @ [''val'']))
      else if glob_jpg fs (raw @ [''val'']) = [] then Inl (No_jpg_files_found (raw @ [''val'']))
      else Inr [(''train'', sort (glob_jpg fs (raw @ [''train'']))),
                (''val'', sort (glob_jpg fs (raw @ [''val''])))])"
  by (simp add: collect_files_def Let_def sort_eq_Nil)

lemmas collect_defs = collect_files_def exists_def lookup_def glob_jpg_def parent_def
  path_name_def suffix_def

text \<open>
  C7, as stated, fails: \<open>collect_files\<close> checks \<open>train\<close> completely before it looks at
  \<open>val\<close>.  With \<open>train\<close> present but holding no \<^verbatim>\<open>.jpg\<close>, and \<open>val\<close> absent, the
  error is "no images found" for \<open>train\<close>, not "missing directory" for \<open>val\<close>.
\<close>

theorem collect_files_train_checked_first:
  "\<not> exists fs_no_val [''raw'', ''val'']
   \<and> collect_files fs_no_val [''raw''] = Inl (No_jpg_files_found [''raw'', ''train''])
   \<and> collect_files fs_no_val [''raw''] \<noteq> Inl (Missing_split_directory [''raw'', ''val''])"
  by (simp add: fs_no_val_def collect_defs)

text \<open>
  C7, amended.  \<open>collect_files\<close> examines \<open>train\<close>, then \<open>val\<close>, and fails at the first
  split that is wrong: "missing directory" if its directory is absent, "no images found" if
  it holds no entry matching \<^verbatim>\<open>*.jpg\<close>.  Otherwise it returns for \<open>train\<close> and \<open>val\<close>, in
  this order, the matching paths of the directory, each once, sorted so that the file names
  ascend lexicographically.
\<close>

theorem collect_files_first_failure:
  "collect_files fs raw =
     (if \<not> exists fs (raw @ [''train'']) then Inl (Missing_split_directory (raw @ [''train'']))
      else if glob_jpg fs (raw @ [''train'']) = [] then Inl (No_jpg_files_found (raw @ [''train'']))
      else if \<not> exists fs (raw @ [''val'']) then Inl (Missing_split_directory (raw @ [''val'']))
      else if glob_jpg fs (raw @ [''val'']) = [] then Inl (No_jpg_files_found (raw @ [''val'']))
      else Inr [(''train'', sort (glob_jpg fs (raw @ [''train'']))),
                (''val'', sort (glob_jpg fs (raw @ [''val''])))])
   \<and> sorted (map path_name (sort (glob_jpg fs d)))
   \<and> distinct (sort (glob_jpg fs d))
   \<and> (p \<in> set (sort (glob_jpg fs d)) \<longleftrightarrow>
        lookup fs d = Some Dir \<and> p \<noteq> [] \<and> exists fs p \<and> parent p = d
        \<and> suffix ''.jpg'' (path_name p))"
  using collect_files_unfold [of fs raw] glob_sorted_names [of fs d] glob_jpg_distinct [of fs d]
    glob_jpg_mem [of p fs d]
  by simp

theorem collect_files_first_failure_witness:
  "collect_files fs_many [''raw''] =
     Inr [(''train'', [ [''raw'', ''train'', ''10.jpg''], [''raw'', ''train'', ''2.jpg'']]),
          (''val'', [ [''raw'', ''val'', ''2.jpg'']])]
   \<and> sorted [''10.jpg'', ''2.jpg'']"
proof -
  have g: "sort (glob_jpg fs_many [''raw'', ''train''])
             = [ [''raw'', ''train'', ''10.jpg''], [''raw'', ''train'', ''2.jpg'']]"
          "sort (glob_jpg fs_many [''raw'', ''val'']) = [ [''raw'', ''val'', ''2.jpg'']]"
    by (simp_all add: fs_many_def collect_defs)
  have e: "exists fs_many [''raw'', ''train'']" "exists fs_many [''raw'', ''val'']"
    by (simp_all add: fs_many_def collect_defs)
  have n: "glob_jpg fs_many [''raw'', ''train''] \<noteq> []" "glob_jpg fs_many [''raw'', ''val''] \<noteq> []"
    by (simp_all add: fs_many_def collect_defs)
  from collect_files_first_failure [of fs_many "[''raw'']" "[''raw'', ''train'']"]
  have "collect_files fs_many [''raw''] =
          Inr [(''train'', sort (glob_jpg fs_many [''raw'', ''train''])),
               (''val'', sort (glob_jpg fs_many [''raw'', ''val'']))]"
    and "sorted (map path_name (sort (glob_jpg fs_many [''raw'', ''train''])))"
    using e n by simp_all
  then show ?thesis unfolding g by (simp add: path_name_def)
qed

text \<open>
  C8, as stated, fails: when \<^verbatim>\<open>train/1.jpg\<close> and \<^verbatim>\<open>val/1.jpg\<close> both exist, the split
  index lists the name \<^verbatim>\<open>1.jpg\<close> under both splits, so the two lists together contain it
  twice.
\<close>

theorem split_index_name_in_both_splits:
  "fst (main id [''raw''] [''out''] [''splits'', ''s.json''] False fs_same) = None
   \<and> lookup (snd (main id [''raw''] [''out''] [''splits'', ''s.json''] False fs_same))
        [''splits'', ''s.json'']
       = Some (Json_file [(''train'', [''1.jpg'']), (''val'', [''1.jpg''])])
   \<and> \<not> distinct ([''1.jpg''] @ [''1.jpg''])"
proof -
  have c: "collect_files fs_same [''raw'']
        = Inr [(''train'', [ [''raw'', ''train'', ''1.jpg'']]), (''val'', [ [''raw'', ''val'', ''1.jpg'']])]"
    by (simp add: fs_same_def collect_defs)
  show ?thesis
    unfolding main_def process_dataset_def c
    by (simp add: write_split_file_def stem_def stem_of_name_def
          rfind_dot_def path_name_def fs_same_def src42_def fs_defs)
qed

text \<open>
  C8, amended.  When \<open>main\<close> completes, the split index maps \<open>train\<close> and \<open>val\<close> to the
  file names of the paths \<open>collect_files\<close> found, in the same order.  Each of the two lists
  has no duplicates and holds exactly the names of the \<^verbatim>\<open>.jpg\<close> entries of its split
  directory; nothing is said across the two lists.
\<close>

theorem split_index_per_split:
  assumes "main jpeg raw out sf ov fs = (None, fs2)"
  shows "\<exists>ft fv. collect_files fs raw = Inr [(''train'', ft), (''val'', fv)]
     \<and> lookup fs2 sf = Some (Json_file [(''train'', map path_name ft), (''val'', map path_name fv)])
     \<and> distinct (map path_name ft) \<and> distinct (map path_name fv)
     \<and> (\<forall>n. n \<in> set (map path_name ft) \<longleftrightarrow>
              exists fs (raw @ [''train'', n]) \<and> suffix ''.jpg'' n)
     \<and> (\<forall>n. n \<in> set (map path_name fv) \<longleftrightarrow>
              exists fs (raw @ [''val'', n]) \<and> suffix ''.jpg'' n)"
proof -
  from assms obtain splits fs1 where
    pd: "process_dataset jpeg raw out ov fs = (Inr splits, fs1)" and
    ws: "write_split_file sf splits fs1 = (None, fs2)"
    by (auto simp: main_def split: prod.splits sum.splits)
  from pd have cf: "collect_files fs raw = Inr splits"
    by (auto simp: process_dataset_def split: sum.splits prod.splits option.splits)
  let ?t = "raw @ [''train'']" and ?v = "raw @ [''val'']"
  let ?ft = "sort (glob_jpg fs ?t)" and ?fv = "sort (glob_jpg fs ?v)"
  from cf have sp: "splits = [(''train'', ?ft), (''val'', ?fv)]"
    and ne: "glob_jpg fs ?t \<noteq> []" "glob_jpg fs ?v \<noteq> []"
    by (auto simp: collect_files_unfold split: if_splits)
  from ws obtain fs1' where
    "write_file fs1' sf (Json_file (map (\<lambda>(k, v). (k, map path_name v)) splits)) = Inr fs2"
    by (auto simp: write_split_file_def Let_def split: sum.splits)
  from write_file_props [OF this]
  have js: "lookup fs2 sf = Some (Json_file [(''train'', map path_name ?ft), (''val'', map path_name ?fv)])"
    by (simp add: sp)
  have names: "n \<in> set (map path_name (sort (glob_jpg fs (raw @ [s]))))
                 \<longleftrightarrow> exists fs (raw @ [s, n]) \<and> suffix ''.jpg'' n"
    if "glob_jpg fs (raw @ [s]) \<noteq> []" for s n
  proof -
    from that have dir: "lookup fs (raw @ [s]) = Some Dir"
      by (auto simp: glob_jpg_def split: option.splits node.splits)
    show ?thesis
    proof
      assume "n \<in> set (map path_name (sort (glob_jpg fs (raw @ [s]))))"
      then obtain p where pm: "p \<in> set (glob_jpg fs (raw @ [s]))" and n: "n = path_name p"
        by auto
      from pm have f: "p \<noteq> []" "parent p = raw @ [s]" "exists fs p"
        "suffix ''.jpg'' (path_name p)"
        by (simp_all add: glob_jpg_mem)
      have "parent p @ [path_name p] = raw @ [s, n]"
        by (simp add: f(2) n)
      with path_split [OF f(1)] have peq: "p = raw @ [s, n]"
        by (rule trans)
      from f(3) peq have "exists fs (raw @ [s, n])" by simp
      moreover from f(4) n have "suffix ''.jpg'' n" by simp
      ultimately show "exists fs (raw @ [s, n]) \<and> suffix ''.jpg'' n" ..
    next
      assume "exists fs (raw @ [s, n]) \<and> suffix ''.jpg'' n"
      with dir have "raw @ [s, n] \<in> set (glob_jpg fs (raw @ [s]))"
        by (simp add: glob_jpg_mem parent_def path_name_def butlast_append)
      then have "path_name (raw @ [s, n]) \<in> set (map path_name (sort (glob_jpg fs (raw @ [s]))))"
        by (metis (no_types) image_eqI list.set_map set_sort)
      then show "n \<in> set (map path_name (sort (glob_jpg fs (raw @ [s]))))"
        by (simp add: path_name_def)
    qed
  qed
  from cf sp js glob_distinct_names [of fs ?t] glob_distinct_names [of fs ?v]
    names [OF ne(1)] names [OF ne(2)]
  show ?thesis by blast
qed

theorem split_index_per_split_witness:
  "main id [''raw''] [''out''] [''splits'', ''s.json''] False fs_two
     = (None, snd (main id [''raw''] [''out''] [''splits'', ''s.json''] False fs_two))
   \<and> lookup (snd (main id [''raw''] [''out''] [''splits'', ''s.json''] False fs_two))
        [''splits'', ''s.json'']
       = Some (Json_file [(''train'', [''1.jpg'']), (''val'', [''2.jpg''])])"
proof -
  have c: "collect_files fs_two [''raw'']
        = Inr [(''train'', [ [''raw'', ''train'', ''1.jpg'']]), (''val'', [ [''raw'', ''val'', ''2.jpg'']])]"
    by (simp add: fs_two_def collect_defs)
  have "fst (main id [''raw''] [''out''] [''splits'', ''s.json''] False fs_two) = None"
    unfolding main_def process_dataset_def c
    by (simp add: write_split_file_def stem_def stem_of_name_def
          rfind_dot_def path_name_def fs_two_def src42_def fs_defs)
  then have h: "main id [''raw''] [''out''] [''splits'', ''s.json''] False fs_two
     = (None, snd (main id [''raw''] [''out''] [''splits'', ''s.json''] False fs_two))"
    by (metis prod.collapse)
  from split_index_per_split [OF h] obtain ft fv where
    "collect_files fs_two [''raw''] = Inr [(''train'', ft), (''val'', fv)]"
    "lookup (snd (main id [''raw''] [''out''] [''splits'', ''s.json''] False fs_two))
        [''splits'', ''s.json'']
       = Some (Json_file [(''train'', map path_name ft), (''val'', map path_name fv)])"
    by blast
  with c h show ?thesis by (simp add: path_name_def)
qed


















section \<open>Properties of dataset.py\<close>

text \<open>
  C5, as stated, fails: \<^verbatim>\<open>self.files[idx]\<close> is Python list indexing, so the index \<open>-1\<close>,
  which lies outside \<open>[0, len)\<close>, returns the last sample instead of raising.
\<close>

theorem getitem_minus_one_returns:
  "len ds_example = 1 \<and> \<not> (0 \<le> (-1 :: int) \<and> (-1 :: int) < len ds_example)
   \<and> fst (getitem ds_example (-1) fs_processed rng0)
       = Inr \<lparr>label = Img stale, photo = Img stale, name = ''1.jpg''\<rparr>"
  by (simp add: len_def getitem_def list_getitem_def ds_example_def fs_processed_def stale_def
        parse_path_def stem_def stem_of_name_def rfind_dot_def path_name_def image_open_def
        lookup_def convert_RGB_def)

text \<open>
  C5, amended.  For every dataset and every index \<open>idx\<close> with \<open>idx \<ge> len\<close> or
  \<open>idx < -len\<close>, \<open>getitem\<close> raises \<^verbatim>\<open>IndexError\<close> before it touches a file or the
  transform, and returns no sample.  (An index in \<open>[-len, 0)\<close> counts from the end.)
\<close>

theorem getitem_out_of_range:
  assumes "len ds \<le> idx \<or> idx < - len ds"
  shows "getitem ds idx fs g = (Inl List_index_out_of_range, g)
     \<and> exn_class List_index_out_of_range = IndexError"
  using assms by (auto simp: getitem_def list_getitem_def len_def)

theorem getitem_out_of_range_witness:
  "len ds_example \<le> 1 \<and> (-2) < - len ds_example
   \<and> getitem ds_example 1 fs_processed rng0 = (Inl List_index_out_of_range, rng0)
   \<and> getitem ds_example (-2) fs_processed rng0 = (Inl List_index_out_of_range, rng0)"
proof -
  have l: "len ds_example = 1"
    by (simp add: len_def ds_example_def)
  then have h1: "len ds_example \<le> 1 \<or> 1 < - len ds_example"
    and h2: "len ds_example \<le> -2 \<or> -2 < - len ds_example"
    by simp_all
  from getitem_out_of_range [OF h1, of fs_processed rng0]
    getitem_out_of_range [OF h2, of fs_processed rng0] l
  show ?thesis by simp
qed

end
